theory Spec2Isabelle
  imports Complex_Main "HOL-Library.AList" "HOL-Library.Product_Lexorder"
begin

section \<open>Common conventions\<close>

text \<open>
  The four cloud services (\<^verbatim>\<open>data_collector.py\<close>, \<^verbatim>\<open>labeling_service.py\<close>,
  \<^verbatim>\<open>deployment_manager.py\<close>, \<^verbatim>\<open>retraining_orchestrator.py\<close>) are embedded as functions
  on explicit state records.

  \<^item> A Python \<^verbatim>\<open>dict\<close> is an association list in insertion order; \<open>map_of\<close> reads it and
    \<open>AList.update\<close> assigns a key (in place when the key exists, appended otherwise, as
    a Python dict does).
  \<^item> A \<^verbatim>\<open>datetime\<close> is the number of microseconds since the epoch; every operation that
    calls \<^verbatim>\<open>datetime.now()\<close> takes the clock reading \<open>now\<close> as an argument.
  \<^item> Python truthiness of an optional string (\<^verbatim>\<open>if labeler_id:\<close>) is \<open>truthy\<close>: neither
    \<^verbatim>\<open>None\<close> nor the empty string.
  \<^item> Enum members of different enums that share a name carry the initials of their enum.
  \<^item> The optional callbacks (\<^verbatim>\<open>on_label_assigned\<close>, \<^verbatim>\<open>on_job_started\<close>, ...) are left at
    their default \<^verbatim>\<open>None\<close>, except where stated.
\<close>

type_synonym datetime = int

definition truthy :: "string option \<Rightarrow> bool" where
  "truthy s = (case s of None \<Rightarrow> False | Some x \<Rightarrow> x \<noteq> [])"

definition total_seconds :: "datetime \<Rightarrow> real" where
  "total_seconds d = real_of_int d / 1000000"

section \<open>Sample store (\<^verbatim>\<open>data_collector.py\<close>)\<close>

record TrainingSample =
  ts_device_id :: string
  ts_features :: "real list"
  ts_predicted_label :: int
  ts_confidence :: real
  ts_label_source :: int
  ts_timestamp :: int
  ts_received_at :: "datetime option"
  ts_true_label :: "int option"
  ts_sample_id :: "int option"

text \<open>
  The \<^verbatim>\<open>sample_data\<close> dict of \<^verbatim>\<open>receive_sample\<close>: each key is present (\<open>Some\<close>) or
  absent (\<open>None\<close>), with values at their annotated types.
\<close>

record SampleData =
  sd_device_id :: "string option"
  sd_features :: "real list option"
  sd_predicted_label :: "int option"
  sd_confidence :: "real option"
  sd_label_source :: "int option"
  sd_timestamp :: "int option"
  sd_true_label :: "int option"
  sd_sample_id :: "int option"

definition get_default :: "'a option \<Rightarrow> 'a \<Rightarrow> 'a" where
  "get_default v d = (case v of None \<Rightarrow> d | Some x \<Rightarrow> x)"

text \<open>\<^verbatim>\<open>TrainingSample.from_dict\<close>: \<^verbatim>\<open>data.get(key, default)\<close> for every field.\<close>

definition from_dict :: "SampleData \<Rightarrow> datetime \<Rightarrow> TrainingSample" where
  "from_dict data now =
     \<lparr>ts_device_id = get_default (sd_device_id data) [],
      ts_features = get_default (sd_features data) [],
      ts_predicted_label = get_default (sd_predicted_label data) 0,
      ts_confidence = get_default (sd_confidence data) 0,
      ts_label_source = get_default (sd_label_source data) 0,
      ts_timestamp = get_default (sd_timestamp data) 0,
      ts_received_at = Some now,
      ts_true_label = sd_true_label data,
      ts_sample_id = sd_sample_id data\<rparr>"

text \<open>The rows of the SQLite tables \<^verbatim>\<open>samples\<close> and \<^verbatim>\<open>devices\<close>.\<close>

record SampleRow =
  sr_id :: int
  sr_device_id :: string
  sr_features :: "real list"
  sr_predicted_label :: int
  sr_confidence :: real
  sr_label_source :: int
  sr_timestamp :: int
  sr_received_at :: datetime
  true_label :: "int option"
  used_for_training :: bool

record DeviceRow =
  dr_device_id :: string
  total_samples :: int
  labeled_samples :: int
  last_seen :: "datetime option"
  dr_model_version :: "string option"

text \<open>
  The collector: the ingestion queue, the in-memory buffer and the database.  The
  callback \<^verbatim>\<open>on_sample_received\<close> is a function that answers \<open>False\<close> when it raises.
  The database is taken to be available: its statements do not raise.
\<close>

record DataCollector =
  buffer :: "TrainingSample list"
  buffer_size :: nat
  sample_queue :: "TrainingSample list"
  samples :: "SampleRow list"
  devices :: "DeviceRow list"
  on_sample_received :: "(TrainingSample \<Rightarrow> bool) option"

text \<open>
  \<^verbatim>\<open>receive_sample\<close>: build the sample, put it on the queue, call the callback; any
  exception inside the \<^verbatim>\<open>try\<close> gives \<open>False\<close>.  On a dict, \<^verbatim>\<open>from_dict\<close> and
  \<^verbatim>\<open>Queue.put\<close> do not raise, so only the callback can.
\<close>

definition receive_sample ::
  "DataCollector \<Rightarrow> SampleData \<Rightarrow> datetime \<Rightarrow> bool \<times> DataCollector" where
  "receive_sample dc sample_data now =
     (let sample = from_dict sample_data now;
          dc1 = dc\<lparr>sample_queue := sample_queue dc @ [sample]\<rparr>
      in case on_sample_received dc of
           None \<Rightarrow> (True, dc1)
         | Some callback \<Rightarrow> if callback sample then (True, dc1) else (False, dc1))"

text \<open>
  \<^verbatim>\<open>set_label\<close>: two UPDATE statements.  The first sets \<^verbatim>\<open>true_label\<close> on the row with
  the given id; the second adds one to \<^verbatim>\<open>labeled_samples\<close> of every device row whose
  id equals the sub-select (the device of the sample with that id, NULL when there is
  no such sample, and then no row matches).
\<close>

definition select_device_id :: "SampleRow list \<Rightarrow> int \<Rightarrow> string option" where
  "select_device_id rows sid =
     (case filter (\<lambda>r. sr_id r = sid) rows of [] \<Rightarrow> None | r # _ \<Rightarrow> Some (sr_device_id r))"

definition set_label :: "DataCollector \<Rightarrow> int \<Rightarrow> int \<Rightarrow> bool \<times> DataCollector" where
  "set_label dc sid label =
     (let rows = map (\<lambda>r. if sr_id r = sid then r\<lparr>true_label := Some label\<rparr> else r) (samples dc);
          owner = select_device_id rows sid;
          devs = map (\<lambda>d. if Some (dr_device_id d) = owner
                            then d\<lparr>labeled_samples := labeled_samples d + 1\<rparr> else d) (devices dc)
      in (True, dc\<lparr>samples := rows, devices := devs\<rparr>))"

text \<open>
  Python floats.  A float is represented by the real number it denotes (a finite
  double).  The division \<^verbatim>\<open>a / b\<close> of two ints is the exact quotient rounded to the
  nearest double, ties to even: with \<open>e\<close> the binary exponent of the quotient
  (\<open>2 ^ e \<le> a / b < 2 ^ (e + 1)\<close>), the quotient is rounded to a multiple of
  \<open>2 ^ (e - 52)\<close>.  \<open>true_divide\<close> is used for \<open>0 \<le> a\<close> and \<open>0 < b\<close> (row counts), whose
  quotient is far inside the range of normal doubles.
\<close>

fun bit_length :: "nat \<Rightarrow> nat" where
  "bit_length n = (if n = 0 then 0 else Suc (bit_length (n div 2)))"

declare bit_length.simps [simp del]

definition floor_log2 :: "int \<Rightarrow> int \<Rightarrow> int" where
  "floor_log2 a b =
     (let k = int (bit_length (nat a)) - int (bit_length (nat b))
      in if 0 \<le> k then (if b * 2 ^ nat k \<le> a then k else k - 1)
         else (if b \<le> a * 2 ^ nat (- k) then k else k - 1))"

definition round_half_even :: "int \<Rightarrow> int \<Rightarrow> int" where
  "round_half_even n d =
     (let q = n div d; r = n mod d
      in if 2 * r < d then q else if d < 2 * r then q + 1 else if even q then q else q + 1)"

definition true_divide :: "int \<Rightarrow> int \<Rightarrow> real" where
  "true_divide a b =
     (if a = 0 then 0
      else (let s = 52 - floor_log2 a b
            in if 0 \<le> s then real_of_int (round_half_even (a * 2 ^ nat s) b) / 2 ^ nat s
               else real_of_int (round_half_even a (b * 2 ^ nat (- s))) * 2 ^ nat (- s)))"

text \<open>
  \<^verbatim>\<open>get_stats_summary\<close>: four COUNT queries and the labeling rate, the float
  \<^verbatim>\<open>labeled_samples / total_samples\<close> (the int 0 when there is no sample).
\<close>

record StatsSummary =
  stats_total_samples :: int
  stats_labeled_samples :: int
  stats_unlabeled_samples :: int
  stats_total_devices :: int
  stats_used_for_training :: int
  stats_labeling_rate :: real

definition get_stats_summary :: "DataCollector \<Rightarrow> StatsSummary" where
  "get_stats_summary dc =
     (let total = int (length (samples dc));
          labeled = int (length (filter (\<lambda>r. true_label r \<noteq> None) (samples dc)));
          total_devices = int (length (remdups (map dr_device_id (devices dc))));
          used = int (length (filter used_for_training (samples dc)))
      in \<lparr>stats_total_samples = total,
          stats_labeled_samples = labeled,
          stats_unlabeled_samples = total - labeled,
          stats_total_devices = total_devices,
          stats_used_for_training = used,
          stats_labeling_rate = (if total > 0 then true_divide labeled total else 0)\<rparr>)"

section \<open>Labeling service (\<^verbatim>\<open>labeling_service.py\<close>)\<close>

datatype LabelingPriority = LOW | MEDIUM | HIGH | URGENT

fun priority_value :: "LabelingPriority \<Rightarrow> int" where
  "priority_value LOW = 1"
| "priority_value MEDIUM = 2"
| "priority_value HIGH = 3"
| "priority_value URGENT = 4"

datatype LabelingStatus = LS_PENDING | LS_IN_PROGRESS | LS_LABELED | LS_SKIPPED | LS_DISPUTED

record LabelingTask =
  task_id :: int
  sample_id :: int
  task_device_id :: string
  task_features :: "real list"
  task_predicted_label :: int
  task_confidence :: real
  priority :: LabelingPriority
  task_status :: LabelingStatus
  task_created_at :: datetime
  assigned_to :: "string option"
  assigned_at :: "datetime option"
  task_completed_at :: "datetime option"
  assigned_label :: "int option"
  labeler_confidence :: real
  task_notes :: string

text \<open>One entry of \<^verbatim>\<open>labeler_stats\<close>; the \<^verbatim>\<open>defaultdict\<close> supplies \<open>default_stats\<close>.\<close>

record LabelerStats =
  completed :: int
  avg_time :: real
  agreement_rate :: real

definition default_stats :: LabelerStats where
  "default_stats = \<lparr>completed = 0, avg_time = 0, agreement_rate = 0\<rparr>"

record LabelingService =
  tasks :: "(int \<times> LabelingTask) list"
  task_counter :: int
  labeler_stats :: "(string \<times> LabelerStats) list"

text \<open>
  \<^verbatim>\<open>get_next_task\<close>: the PENDING tasks in dict order, sorted (stably, as \<^verbatim>\<open>list.sort\<close>
  does) by the key \<^verbatim>\<open>(-priority.value, created_at)\<close>; the first one is returned, and
  claimed when a truthy labeler id is given.  A dict entry is carried with its key, so
  that the mutation reaches the object stored there.
\<close>

definition pending_tasks :: "LabelingService \<Rightarrow> (int \<times> LabelingTask) list" where
  "pending_tasks svc = filter (\<lambda>kt. task_status (snd kt) = LS_PENDING) (tasks svc)"

definition sort_key_of :: "int \<times> LabelingTask \<Rightarrow> int \<times> datetime" where
  "sort_key_of kt = (- priority_value (priority (snd kt)), task_created_at (snd kt))"

definition get_next_task ::
  "LabelingService \<Rightarrow> string option \<Rightarrow> datetime \<Rightarrow> LabelingTask option \<times> LabelingService" where
  "get_next_task svc labeler_id now =
     (case sort_key sort_key_of (pending_tasks svc) of
        [] \<Rightarrow> (None, svc)
      | kt # _ \<Rightarrow>
          if truthy labeler_id then
            (let task = (snd kt)\<lparr>assigned_to := labeler_id, assigned_at := Some now,
                                task_status := LS_IN_PROGRESS\<rparr>
             in (Some task, svc\<lparr>tasks := AList.update (fst kt) task (tasks svc)\<rparr>))
          else (Some (snd kt), svc))"

text \<open>
  \<^verbatim>\<open>_update_labeler_stats\<close>: running count, running mean of the labeling time and of
  the agreement with the prediction; \<open>labeler\<close> is \<^verbatim>\<open>task.assigned_to\<close>, which the caller
  has found truthy.
\<close>

definition update_labeler_stats ::
  "LabelingService \<Rightarrow> string \<Rightarrow> LabelingTask \<Rightarrow> LabelingService" where
  "update_labeler_stats svc labeler task =
     (let stats = (case map_of (labeler_stats svc) labeler of None \<Rightarrow> default_stats | Some st \<Rightarrow> st);
          n = completed stats + 1;
          stats1 = stats\<lparr>completed := n\<rparr>;
          stats2 = (case (assigned_at task, task_completed_at task) of
                      (Some a, Some c) \<Rightarrow>
                        stats1\<lparr>avg_time := (avg_time stats1 * real_of_int (n - 1)
                                              + total_seconds (c - a)) / real_of_int n\<rparr>
                    | _ \<Rightarrow> stats1);
          agreement = (if assigned_label task = Some (task_predicted_label task) then 1 else 0);
          stats3 = stats2\<lparr>agreement_rate := (agreement_rate stats2 * real_of_int (n - 1)
                                               + agreement) / real_of_int n\<rparr>
      in svc\<lparr>labeler_stats := AList.update labeler stats3 (labeler_stats svc)\<rparr>)"

text \<open>
  \<^verbatim>\<open>submit_label\<close>, \<^verbatim>\<open>skip_task\<close>, \<^verbatim>\<open>dispute_label\<close>: each looks the task up and
  assigns its fields; none of them reads the task's current status.  The collector
  (\<^verbatim>\<open>self.data_collector\<close>, possibly \<^verbatim>\<open>None\<close>) is passed and returned explicitly.
\<close>

definition submit_label ::
  "LabelingService \<Rightarrow> DataCollector option \<Rightarrow> int \<Rightarrow> int \<Rightarrow> string option \<Rightarrow> real \<Rightarrow> string
     \<Rightarrow> datetime \<Rightarrow> bool \<times> LabelingService \<times> DataCollector option" where
  "submit_label svc dc tid label labeler_id conf notes now =
     (case map_of (tasks svc) tid of
        None \<Rightarrow> (False, svc, dc)
      | Some task \<Rightarrow>
          (let task1 = task\<lparr>assigned_label := Some label, labeler_confidence := conf,
                            task_notes := notes, task_status := LS_LABELED,
                            task_completed_at := Some now\<rparr>;
               task2 = (if truthy labeler_id then task1\<lparr>assigned_to := labeler_id\<rparr> else task1);
               dc1 = (case dc of None \<Rightarrow> None
                      | Some c \<Rightarrow> Some (snd (set_label c (sample_id task2) label)));
               svc1 = svc\<lparr>tasks := AList.update tid task2 (tasks svc)\<rparr>;
               svc2 = (case assigned_to task2 of
                         None \<Rightarrow> svc1
                       | Some labeler \<Rightarrow>
                           if labeler \<noteq> [] then update_labeler_stats svc1 labeler task2 else svc1)
           in (True, svc2, dc1)))"

definition skip_task :: "LabelingService \<Rightarrow> int \<Rightarrow> string \<Rightarrow> datetime \<Rightarrow> bool \<times> LabelingService" where
  "skip_task svc tid reason now =
     (case map_of (tasks svc) tid of
        None \<Rightarrow> (False, svc)
      | Some task \<Rightarrow>
          (True, svc\<lparr>tasks := AList.update tid
                    (task\<lparr>task_status := LS_SKIPPED, task_notes := reason,
                          task_completed_at := Some now\<rparr>) (tasks svc)\<rparr>))"

definition dispute_label :: "LabelingService \<Rightarrow> int \<Rightarrow> string \<Rightarrow> bool \<times> LabelingService" where
  "dispute_label svc tid reason =
     (case map_of (tasks svc) tid of
        None \<Rightarrow> (False, svc)
      | Some task \<Rightarrow>
          (True, svc\<lparr>tasks := AList.update tid
                    (task\<lparr>task_status := LS_DISPUTED, task_notes := reason\<rparr>) (tasks svc)\<rparr>))"

text \<open>The status of the task stored under an id, if any.\<close>

definition status_of :: "LabelingService \<Rightarrow> int \<Rightarrow> LabelingStatus option" where
  "status_of svc tid = map_option task_status (map_of (tasks svc) tid)"

section \<open>Retraining orchestrator (\<^verbatim>\<open>retraining_orchestrator.py\<close>)\<close>

datatype RetrainingStatus =
  IDLE | SCHEDULED | PREPARING_DATA | TRAINING | VALIDATING | DEPLOYING | RS_COMPLETED | RS_FAILED

text \<open>
  The job id \<^verbatim>\<open>job_%Y%m%d_%H%M%S\<close> is the clock reading at one-second resolution; it
  is represented by that number of seconds.
\<close>

record RetrainingJob =
  job_id :: int
  job_status :: RetrainingStatus
  triggered_by :: string
  job_created_at :: datetime
  started_at :: "datetime option"
  job_completed_at :: "datetime option"
  num_samples :: int
  train_accuracy :: real
  val_accuracy :: real
  job_model_version :: string
  job_error_message :: string

record RetrainingConfig =
  min_samples_for_retraining :: int
  min_new_samples :: int
  min_labeled_ratio :: real
  validation_split :: real
  min_accuracy_improvement :: real

text \<open>
  The orchestrator state; \<open>job_threads\<close> counts the \<^verbatim>\<open>_run_retraining_job\<close> threads
  that \<^verbatim>\<open>trigger_retraining\<close> has started.
\<close>

record RetrainingOrchestrator =
  config :: RetrainingConfig
  current_job :: "RetrainingJob option"
  job_history :: "RetrainingJob list"
  production_accuracy :: real
  job_threads :: nat

definition seconds_of :: "datetime \<Rightarrow> int" where
  "seconds_of now = now div 1000000"

text \<open>The guard of \<^verbatim>\<open>should_retrain\<close>: a current job that is neither COMPLETED nor FAILED.\<close>

definition job_in_flight :: "RetrainingOrchestrator \<Rightarrow> bool" where
  "job_in_flight orch =
     (case current_job orch of
        None \<Rightarrow> False
      | Some job \<Rightarrow> job_status job \<noteq> RS_COMPLETED \<and> job_status job \<noteq> RS_FAILED)"

definition should_retrain :: "RetrainingOrchestrator \<Rightarrow> DataCollector \<Rightarrow> bool" where
  "should_retrain orch dc =
     (if job_in_flight orch then False
      else (let stats = get_stats_summary dc in
        if stats_total_samples stats < min_samples_for_retraining (config orch) then False
        else if stats_labeling_rate stats < min_labeled_ratio (config orch) then False
        else (let new_samples = stats_total_samples stats - stats_used_for_training stats in
          if new_samples < min_new_samples (config orch) then False
          else True)))"

text \<open>
  \<^verbatim>\<open>trigger_retraining\<close>: under the lock, assign a fresh SCHEDULED job to
  \<^verbatim>\<open>current_job\<close>; then start the job thread; return the job id.
\<close>

definition new_job :: "string \<Rightarrow> datetime \<Rightarrow> RetrainingJob" where
  "new_job trigger now =
     \<lparr>job_id = seconds_of now, job_status = SCHEDULED, triggered_by = trigger,
      job_created_at = now, started_at = None, job_completed_at = None, num_samples = 0,
      train_accuracy = 0, val_accuracy = 0, job_model_version = [], job_error_message = []\<rparr>"

definition trigger_retraining ::
  "RetrainingOrchestrator \<Rightarrow> string \<Rightarrow> datetime \<Rightarrow> int \<times> RetrainingOrchestrator" where
  "trigger_retraining orch trigger now =
     (seconds_of now,
      orch\<lparr>current_job := Some (new_job trigger now), job_threads := Suc (job_threads orch)\<rparr>)"

text \<open>One round of \<^verbatim>\<open>_worker_loop\<close>: the trigger is called only when \<^verbatim>\<open>should_retrain\<close> holds.\<close>

definition worker_round ::
  "RetrainingOrchestrator \<Rightarrow> DataCollector \<Rightarrow> datetime \<Rightarrow> RetrainingOrchestrator" where
  "worker_round orch dc now =
     (if should_retrain orch dc then snd (trigger_retraining orch ''schedule'' now) else orch)"

section \<open>Model registry and rollout (\<^verbatim>\<open>deployment_manager.py\<close>)\<close>

datatype DeploymentStatus = DS_PENDING | ROLLING_OUT | DS_COMPLETED | DS_FAILED | ROLLED_BACK

datatype DeviceUpdateStatus =
  DU_PENDING | NOTIFIED | DOWNLOADING | INSTALLING | DU_COMPLETED | DU_FAILED

datatype error =
  FileNotFoundError | SameFileError | IsADirectoryError | PermissionError | ValueError

record DeployedModel =
  version :: string
  file_path :: string
  size_bytes :: nat
  hash_sha256 :: string
  created_at :: datetime
  deployed_at :: "datetime option"
  accuracy :: real
  is_production :: bool
  metadata :: "(string \<times> string) list option"

record DeviceDeployment =
  device_id :: string
  target_version :: string
  current_version :: string
  dd_status :: DeviceUpdateStatus
  notified_at :: "datetime option"
  dd_completed_at :: "datetime option"
  error_message :: string

text \<open>
  The deployment id \<^verbatim>\<open>deploy_%Y%m%d_%H%M%S\<close> is, like the job id, represented by the
  clock reading in seconds.
\<close>

record DeploymentJob =
  deployment_id :: int
  model_version :: string
  target_devices :: "string list"
  dj_status :: DeploymentStatus
  dj_created_at :: datetime
  dj_completed_at :: "datetime option"
  success_count :: nat
  failure_count :: nat

text \<open>
  The manager, with the part of the disk it works on: \<open>files\<close> maps the resolved path
  of a regular file to its content, \<open>registry_document\<close> is the content of the registry
  file (the models and the production pointer, as \<^verbatim>\<open>_save_registry\<close> writes them).
  \<open>notify_device\<close> says whether the notification callback is set.
\<close>

record DeploymentManager =
  models_dir :: string
  registry :: "(string \<times> DeployedModel) list"
  production_version :: "string option"
  deployments :: "(int \<times> DeploymentJob) list"
  device_status :: "(string \<times> DeviceDeployment) list"
  notify_device :: bool
  files :: "string \<rightharpoonup> string"
  registry_document :: "((string \<times> DeployedModel) list \<times> string option) option"

text \<open>A manager constructed where no registry file exists.\<close>

definition new_manager :: "string \<Rightarrow> (string \<rightharpoonup> string) \<Rightarrow> DeploymentManager" where
  "new_manager dir fs =
     \<lparr>models_dir = dir, registry = [], production_version = None, deployments = [],
      device_status = [], notify_device = False, files = fs, registry_document = None\<rparr>"

text \<open>
  \<^verbatim>\<open>_save_registry\<close> writing the registry document.  Where \<^verbatim>\<open>_set_production\<close> calls it
  the registry file is taken to be writable; \<^verbatim>\<open>register_model\<close> below asks the platform
  first.
\<close>

definition save_registry :: "DeploymentManager \<Rightarrow> DeploymentManager" where
  "save_registry mgr = mgr\<lparr>registry_document := Some (registry mgr, production_version mgr)\<rparr>"

text \<open>
  What \<^verbatim>\<open>register_model\<close> asks of the libraries and of the operating system:
  \<^item> \<open>sha256\<close>: the digest function (\<^verbatim>\<open>hashlib.sha256(...).hexdigest()\<close>);
  \<^item> \<open>resolve\<close>: the file that a path string names (two strings may name one file);
  \<^item> \<open>is_dir\<close>: whether a resolved path is an existing directory;
  \<^item> \<open>copy2_error\<close>: the exception, if any, with which copying a regular file from the
    first path to the second and reading the copy back (\<^verbatim>\<open>shutil.copy2\<close>, \<^verbatim>\<open>open\<close>)
    fails: \<^verbatim>\<open>SameFileError\<close> when both paths name the same file, \<^verbatim>\<open>FileNotFoundError\<close>
    when the directory of the destination does not exist, and so on;
  \<^item> \<open>save_error\<close>: the exception, if any, with which \<^verbatim>\<open>_save_registry\<close> fails to open
    the registry file for writing (its directory does not exist, for instance).
\<close>

record platform =
  sha256 :: "string \<Rightarrow> string"
  resolve :: "string \<Rightarrow> string"
  is_dir :: "string \<Rightarrow> bool"
  copy2_error :: "string \<Rightarrow> string \<Rightarrow> error option"
  save_error :: "error option"

text \<open>
  \<^verbatim>\<open>register_model\<close>.  \<^verbatim>\<open>Path.exists\<close> holds of files and of directories; copying a
  directory raises.  An exception of the copy leaves the manager as it was; an
  exception of \<^verbatim>\<open>_save_registry\<close> comes after the copy and after the assignment to
  \<^verbatim>\<open>self.registry[version]\<close>, which stay.  The registry is not consulted before it is
  assigned.  The metadata is a dict of strings, which \<^verbatim>\<open>json.dump\<close> accepts.
\<close>

definition path_exists :: "platform \<Rightarrow> DeploymentManager \<Rightarrow> string \<Rightarrow> bool" where
  "path_exists os mgr path =
     (files mgr (resolve os path) \<noteq> None \<or> is_dir os (resolve os path))"

definition dest_path_of :: "DeploymentManager \<Rightarrow> string \<Rightarrow> string" where
  "dest_path_of mgr ver = models_dir mgr @ ''/model_'' @ ver @ ''.tflite''"

definition register_model ::
  "platform \<Rightarrow> DeploymentManager \<Rightarrow> string \<Rightarrow> string \<Rightarrow> real
     \<Rightarrow> (string \<times> string) list option \<Rightarrow> datetime
     \<Rightarrow> (error + DeployedModel) \<times> DeploymentManager" where
  "register_model os mgr model_path ver acc meta now =
     (if \<not> path_exists os mgr model_path then (Inl FileNotFoundError, mgr)
      else
        (let dest_path = dest_path_of mgr ver in
         case copy2_error os model_path dest_path of
           Some e \<Rightarrow> (Inl e, mgr)
         | None \<Rightarrow>
             (case files mgr (resolve os model_path) of
                None \<Rightarrow> (Inl IsADirectoryError, mgr)
              | Some content \<Rightarrow>
                  (let model = \<lparr>version = ver, file_path = dest_path,
                                size_bytes = length content, hash_sha256 = sha256 os content,
                                created_at = now, deployed_at = None, accuracy = acc,
                                is_production = False, metadata = meta\<rparr>;
                       mgr1 = mgr\<lparr>files := (files mgr)(resolve os dest_path \<mapsto> content),
                                  registry := AList.update ver model (registry mgr)\<rparr>
                   in case save_error os of
                        Some e \<Rightarrow> (Inl e, mgr1)
                      | None \<Rightarrow> (Inr model, save_registry mgr1)))))"

text \<open>
  \<^verbatim>\<open>_set_production\<close>, called by \<^verbatim>\<open>deploy_model\<close> once it has checked that the version
  is registered: demote the model under the production pointer when the pointer is
  truthy and registered, promote and stamp the given version, move the pointer, save.
\<close>

definition set_production :: "DeploymentManager \<Rightarrow> string \<Rightarrow> datetime \<Rightarrow> DeploymentManager" where
  "set_production mgr ver now =
     (let reg1 = (case production_version mgr of
                    None \<Rightarrow> registry mgr
                  | Some pv \<Rightarrow>
                      if pv \<noteq> [] then
                        (case map_of (registry mgr) pv of
                           None \<Rightarrow> registry mgr
                         | Some old \<Rightarrow> AList.update pv (old\<lparr>is_production := False\<rparr>) (registry mgr))
                      else registry mgr);
          reg2 = (case map_of reg1 ver of
                    None \<Rightarrow> reg1
                  | Some m \<Rightarrow> AList.update ver (m\<lparr>is_production := True, deployed_at := Some now\<rparr>) reg1)
      in save_registry (mgr\<lparr>registry := reg2, production_version := Some ver\<rparr>))"

text \<open>
  \<^verbatim>\<open>_start_rollout\<close>: the job becomes ROLLING_OUT; when the notification callback is
  set, every target device (all known devices when the target list is empty) is
  notified and its record is overwritten with a NOTIFIED one.
\<close>

definition get_all_devices :: "DeploymentManager \<Rightarrow> string list" where
  "get_all_devices mgr = map fst (device_status mgr)"

definition notified_record :: "string \<Rightarrow> string \<Rightarrow> datetime \<Rightarrow> DeviceDeployment" where
  "notified_record dev ver now =
     \<lparr>device_id = dev, target_version = ver, current_version = [], dd_status = NOTIFIED,
      notified_at = Some now, dd_completed_at = None, error_message = []\<rparr>"

definition start_rollout :: "DeploymentManager \<Rightarrow> DeploymentJob \<Rightarrow> datetime \<Rightarrow> DeploymentManager" where
  "start_rollout mgr deployment now =
     (let dep1 = deployment\<lparr>dj_status := ROLLING_OUT\<rparr>;
          mgr1 = mgr\<lparr>deployments := AList.update (deployment_id dep1) dep1 (deployments mgr)\<rparr>
      in if notify_device mgr1 then
           (let devs = (if target_devices dep1 \<noteq> [] then target_devices dep1
                        else get_all_devices mgr1)
            in mgr1\<lparr>device_status :=
                 fold (\<lambda>dev st. AList.update dev (notified_record dev (model_version dep1) now) st)
                      devs (device_status mgr1)\<rparr>)
         else mgr1)"

text \<open>
  \<^verbatim>\<open>deploy_model\<close>; \<^verbatim>\<open>target_devices or []\<close> makes \<^verbatim>\<open>None\<close> the empty list.
\<close>

definition deploy_model ::
  "DeploymentManager \<Rightarrow> string \<Rightarrow> string list option \<Rightarrow> datetime
     \<Rightarrow> (error + int) \<times> DeploymentManager" where
  "deploy_model mgr ver targets now =
     (if ver \<notin> fst ` set (registry mgr) then (Inl ValueError, mgr)
      else
        (let deployment = \<lparr>deployment_id = seconds_of now, model_version = ver,
                            target_devices = get_default targets [], dj_status = DS_PENDING,
                            dj_created_at = now, dj_completed_at = None,
                            success_count = 0, failure_count = 0\<rparr>;
             mgr1 = mgr\<lparr>deployments :=
                      AList.update (deployment_id deployment) deployment (deployments mgr)\<rparr>;
             mgr2 = set_production mgr1 ver now;
             mgr3 = start_rollout mgr2 deployment now
         in (Inr (deployment_id deployment), mgr3)))"

text \<open>
  \<^verbatim>\<open>_check_deployment_completion\<close>: every ROLLING_OUT job recounts its devices (the
  targets, or all known devices when the target list is empty); devices without a
  record are not counted.  Both branches on \<^verbatim>\<open>failure == 0\<close> assign COMPLETED.
\<close>

definition count_device ::
  "(string \<times> DeviceDeployment) list \<Rightarrow> string \<Rightarrow> nat \<times> nat \<times> nat \<Rightarrow> nat \<times> nat \<times> nat" where
  "count_device st dev acc =
     (case acc of (success, failure, pending) \<Rightarrow>
        (case map_of st dev of
           None \<Rightarrow> (success, failure, pending)
         | Some d \<Rightarrow>
             if dd_status d = DU_COMPLETED then (success + 1, failure, pending)
             else if dd_status d = DU_FAILED then (success, failure + 1, pending)
             else (success, failure, pending + 1)))"

definition check_one ::
  "(string \<times> DeviceDeployment) list \<Rightarrow> datetime \<Rightarrow> DeploymentJob \<Rightarrow> DeploymentJob" where
  "check_one st now deployment =
     (if dj_status deployment \<noteq> ROLLING_OUT then deployment
      else
        (let devs = (if target_devices deployment \<noteq> [] then target_devices deployment
                     else map fst st)
         in case fold (count_device st) devs (0, 0, 0) of
              (success, failure, pending) \<Rightarrow>
                (let dep1 = deployment\<lparr>success_count := success, failure_count := failure\<rparr>
                 in if pending = 0 then
                      (if failure = 0
                       then dep1\<lparr>dj_status := DS_COMPLETED, dj_completed_at := Some now\<rparr>
                       else dep1\<lparr>dj_status := DS_COMPLETED, dj_completed_at := Some now\<rparr>)
                    else dep1)))"

definition check_deployment_completion :: "DeploymentManager \<Rightarrow> datetime \<Rightarrow> DeploymentManager" where
  "check_deployment_completion mgr now =
     mgr\<lparr>deployments :=
       map (\<lambda>kd. (fst kd, check_one (device_status mgr) now (snd kd))) (deployments mgr)\<rparr>"

text \<open>
  \<^verbatim>\<open>report_device_status\<close>.  \<^verbatim>\<open>DeviceUpdateStatus(status)\<close> looks the enum member up by
  value; an unknown string raises \<^verbatim>\<open>ValueError\<close>, which is caught and gives FAILED.
\<close>

definition parse_status :: "string \<Rightarrow> DeviceUpdateStatus" where
  "parse_status s =
     (if s = ''pending'' then DU_PENDING
      else if s = ''notified'' then NOTIFIED
      else if s = ''downloading'' then DOWNLOADING
      else if s = ''installing'' then INSTALLING
      else if s = ''completed'' then DU_COMPLETED
      else if s = ''failed'' then DU_FAILED
      else DU_FAILED)"

text \<open>The assignments to the device record, before the branch on its new status.\<close>

definition assign_report ::
  "DeviceDeployment \<Rightarrow> string \<Rightarrow> string option \<Rightarrow> string option \<Rightarrow> DeviceDeployment" where
  "assign_report device status cur err =
     (let d1 = device\<lparr>dd_status := parse_status status\<rparr>;
          d2 = (case cur of None \<Rightarrow> d1
                | Some v \<Rightarrow> if v \<noteq> [] then d1\<lparr>current_version := v\<rparr> else d1)
      in case err of None \<Rightarrow> d2
         | Some e \<Rightarrow> if e \<noteq> [] then d2\<lparr>error_message := e\<rparr> else d2)"

definition report_device_status ::
  "DeploymentManager \<Rightarrow> string \<Rightarrow> string \<Rightarrow> string option \<Rightarrow> string option \<Rightarrow> datetime
     \<Rightarrow> DeploymentManager" where
  "report_device_status mgr dev status cur err now =
     (case map_of (device_status mgr) dev of
        None \<Rightarrow> mgr
      | Some device \<Rightarrow>
          (let d = assign_report device status cur err
           in if dd_status d = DU_COMPLETED then
                check_deployment_completion
                  (mgr\<lparr>device_status :=
                     AList.update dev (d\<lparr>dd_completed_at := Some now\<rparr>) (device_status mgr)\<rparr>) now
              else if dd_status d = DU_FAILED then
                check_deployment_completion
                  (mgr\<lparr>device_status := AList.update dev d (device_status mgr)\<rparr>) now
              else mgr\<lparr>device_status := AList.update dev d (device_status mgr)\<rparr>))"

text \<open>
  \<^verbatim>\<open>rollback\<close>: without a version, the deployed versions are sorted by
  \<^verbatim>\<open>deployed_at\<close>, newest first (\<^verbatim>\<open>sorted(..., reverse=True)\<close> keeps the order of equal
  keys), and the second one is redeployed.
\<close>

definition deployed_versions :: "DeploymentManager \<Rightarrow> (string \<times> datetime) list" where
  "deployed_versions mgr =
     rev (sort_key snd (rev (concat (map (\<lambda>vm. case deployed_at (snd vm) of
                                                  None \<Rightarrow> []
                                                | Some t \<Rightarrow> [(fst vm, t)]) (registry mgr)))))"

definition rollback ::
  "DeploymentManager \<Rightarrow> string option \<Rightarrow> datetime \<Rightarrow> bool \<times> DeploymentManager" where
  "rollback mgr to_version now =
     (let target = (case to_version of
                      Some v \<Rightarrow> Some v
                    | None \<Rightarrow> (case deployed_versions mgr of
                                 _ # second # _ \<Rightarrow> Some (fst second)
                               | _ \<Rightarrow> None))
      in case target of
           None \<Rightarrow> (False, mgr)
         | Some v \<Rightarrow>
             if v \<notin> fst ` set (registry mgr) then (False, mgr)
             else (True, snd (deploy_model mgr v None now)))"

text \<open>The public operations as commands, for talking about reachable registry states.\<close>

datatype manager_op =
  Register_model string string real "(string \<times> string) list option"
| Deploy_model string "string list option"
| Rollback "string option"
| Report_device_status string string "string option" "string option"

fun apply_op ::
  "platform \<Rightarrow> DeploymentManager \<Rightarrow> manager_op \<times> datetime \<Rightarrow> DeploymentManager" where
  "apply_op os mgr (Register_model path ver acc meta, now) =
     snd (register_model os mgr path ver acc meta now)"
| "apply_op os mgr (Deploy_model ver targets, now) = snd (deploy_model mgr ver targets now)"
| "apply_op os mgr (Rollback to_version, now) = snd (rollback mgr to_version now)"
| "apply_op os mgr (Report_device_status dev status cur err, now) =
     report_device_status mgr dev status cur err now"

definition run_ops ::
  "platform \<Rightarrow> DeploymentManager \<Rightarrow> (manager_op \<times> datetime) list \<Rightarrow> DeploymentManager" where
  "run_ops os mgr ops = foldl (apply_op os) mgr ops"

definition production_models :: "DeploymentManager \<Rightarrow> (string \<times> DeployedModel) list" where
  "production_models mgr = filter (\<lambda>vm. is_production (snd vm)) (registry mgr)"

section \<open>Auxiliary notions\<close>

text \<open>The update status recorded for a device, if it has a record.\<close>

definition status_in :: "(string \<times> DeviceDeployment) list \<Rightarrow> string \<Rightarrow> DeviceUpdateStatus option" where
  "status_in st dev = map_option dd_status (map_of st dev)"

text \<open>
  The registry invariant behind the production flag: the keys are distinct (a dict),
  none is the empty string, and a model flagged as production is the one under the
  production pointer.
\<close>

definition registry_ok :: "DeploymentManager \<Rightarrow> bool" where
  "registry_ok mgr =
     (distinct (map fst (registry mgr)) \<and> map_of (registry mgr) [] = None \<and>
      (\<forall>v m. map_of (registry mgr) v = Some m \<and> is_production m
               \<longrightarrow> production_version mgr = Some v))"

text \<open>An operation that, if it registers a model, does so under a non-empty version string.\<close>

fun registers_named :: "manager_op \<times> datetime \<Rightarrow> bool" where
  "registers_named (Register_model path ver acc meta, now) = (ver \<noteq> [])"
| "registers_named _ = True"

section \<open>Concrete states\<close>

text \<open>Small states on which the operations are evaluated below.\<close>

definition make_task ::
  "int \<Rightarrow> LabelingPriority \<Rightarrow> LabelingStatus \<Rightarrow> datetime \<Rightarrow> LabelingTask" where
  "make_task n p st t =
     \<lparr>task_id = n, sample_id = n, task_device_id = ''motor'', task_features = [],
      task_predicted_label = 0, task_confidence = 1 / 2, priority = p, task_status = st,
      task_created_at = t, assigned_to = None, assigned_at = None, task_completed_at = None,
      assigned_label = None, labeler_confidence = 1, task_notes = []\<rparr>"

text \<open>Three PENDING tasks of priorities LOW, URGENT, MEDIUM, and a fourth URGENT one created later.\<close>

definition queue_service :: LabelingService where
  "queue_service =
     \<lparr>tasks = [(1, make_task 1 LOW LS_PENDING 10), (2, make_task 2 URGENT LS_PENDING 20),
               (3, make_task 3 MEDIUM LS_PENDING 10), (4, make_task 4 URGENT LS_PENDING 30)],
      task_counter = 4, labeler_stats = []\<rparr>"

text \<open>A DISPUTED task, a SKIPPED task and a PENDING task.\<close>

definition disputed_service :: LabelingService where
  "disputed_service =
     \<lparr>tasks = [(1, make_task 1 LOW LS_DISPUTED 10), (2, make_task 2 HIGH LS_SKIPPED 20),
               (3, make_task 3 MEDIUM LS_PENDING 30)],
      task_counter = 3, labeler_stats = []\<rparr>"

text \<open>A collector with an empty database, and an envelope with an empty device id and no features.\<close>

definition empty_collector :: DataCollector where
  "empty_collector =
     \<lparr>buffer = [], buffer_size = 1000, sample_queue = [], samples = [], devices = [],
      on_sample_received = None\<rparr>"

definition blank_sample_data :: SampleData where
  "blank_sample_data =
     \<lparr>sd_device_id = Some [], sd_features = Some [], sd_predicted_label = Some 1,
      sd_confidence = Some (9 / 10), sd_label_source = Some 0, sd_timestamp = Some 7,
      sd_true_label = None, sd_sample_id = None\<rparr>"

text \<open>A database with one unlabeled sample of one device.\<close>

definition make_row :: "int \<Rightarrow> string \<Rightarrow> int option \<Rightarrow> bool \<Rightarrow> SampleRow" where
  "make_row n dev lab used =
     \<lparr>sr_id = n, sr_device_id = dev, sr_features = [1], sr_predicted_label = 0,
      sr_confidence = 9 / 10, sr_label_source = 0, sr_timestamp = 0, sr_received_at = 0,
      true_label = lab, used_for_training = used\<rparr>"

definition one_sample_collector :: DataCollector where
  "one_sample_collector =
     empty_collector\<lparr>samples := [make_row 1 ''motor'' None False],
       devices := [\<lparr>dr_device_id = ''motor'', total_samples = 1, labeled_samples = 0,
                    last_seen = None, dr_model_version = None\<rparr>]\<rparr>"

text \<open>An orchestrator with the default configuration whose current job is TRAINING.\<close>

definition default_config :: RetrainingConfig where
  "default_config =
     \<lparr>min_samples_for_retraining = 1000, min_new_samples = 200, min_labeled_ratio = 1 / 2,
      validation_split = 1 / 5, min_accuracy_improvement = 1 / 100\<rparr>"

definition training_orchestrator :: RetrainingOrchestrator where
  "training_orchestrator =
     \<lparr>config = default_config,
      current_job = Some ((new_job ''schedule'' 1000000)\<lparr>job_status := TRAINING,
                                                          started_at := Some 1000001\<rparr>),
      job_history = [], production_accuracy = 0, job_threads = 1\<rparr>"

text \<open>
  A platform without symbolic links: a path is resolved by dropping its empty and
  \<^verbatim>\<open>.\<close> segments and cancelling \<^verbatim>\<open>..\<close> against the segment before; the directories are
  the listed ones and the working directory; a copy fails when both paths resolve to
  the same file, when the destination is a directory, or when the directory of the
  destination does not exist; the registry file can be written when its directory
  exists.
\<close>

definition plain_digest :: "string \<Rightarrow> string" where
  "plain_digest content = ''sha256:'' @ content"

fun segments :: "string \<Rightarrow> string list" where
  "segments [] = [[]]"
| "segments (c # cs) =
     (if c = CHR ''/'' then [] # segments cs
      else (case segments cs of [] \<Rightarrow> [[c]] | seg # segs \<Rightarrow> (c # seg) # segs))"

definition is_absolute :: "string \<Rightarrow> bool" where
  "is_absolute path = (case path of [] \<Rightarrow> False | c # _ \<Rightarrow> c = CHR ''/'')"

text \<open>The segments kept so far are held in reverse order.\<close>

definition norm_step :: "bool \<Rightarrow> string \<Rightarrow> string list \<Rightarrow> string list" where
  "norm_step absolute seg kept =
     (if seg = [] \<or> seg = ''.'' then kept
      else if seg = ''..'' then
        (case kept of
           [] \<Rightarrow> (if absolute then [] else [''..''])
         | prev # rest \<Rightarrow> (if prev = ''..'' then seg # kept else rest))
      else seg # kept)"

definition norm_segments :: "string \<Rightarrow> string list" where
  "norm_segments path = rev (fold (norm_step (is_absolute path)) (segments path) [])"

fun join_path :: "string list \<Rightarrow> string" where
  "join_path [] = []"
| "join_path [seg] = seg"
| "join_path (seg # segs) = seg @ ''/'' @ join_path segs"

definition normpath :: "string \<Rightarrow> string" where
  "normpath path = (if is_absolute path then ''/'' else []) @ join_path (norm_segments path)"

definition parent_dir :: "string \<Rightarrow> string" where
  "parent_dir path =
     (if is_absolute path then ''/'' else []) @ join_path (butlast (norm_segments path))"

definition local_platform :: "string list \<Rightarrow> string \<Rightarrow> platform" where
  "local_platform dirs registry_file =
     (let existing = [] # map normpath dirs in
      \<lparr>sha256 = plain_digest,
       resolve = normpath,
       is_dir = (\<lambda>path. path \<in> set existing),
       copy2_error = (\<lambda>src dst.
         if normpath src = normpath dst then Some SameFileError
         else if normpath dst \<in> set existing then Some IsADirectoryError
         else if parent_dir dst \<notin> set existing then Some FileNotFoundError
         else None),
       save_error = (if parent_dir registry_file \<in> set existing then None
                     else Some FileNotFoundError)\<rparr>)"

text \<open>
  The default construction: \<^verbatim>\<open>./models\<close> exists (the constructor makes it) and holds the
  registry file; the artifact to register is in \<^verbatim>\<open>/tmp\<close>.  A manager with version
  \<^verbatim>\<open>v2\<close> registered and the notification callback set; and a run of public operations
  that registers and deploys a model under the empty version string, then \<^verbatim>\<open>v2\<close>.
\<close>

definition workstation :: platform where
  "workstation = local_platform [''models'', ''/tmp''] ''./models/registry.json''"

definition fleet_manager :: DeploymentManager where
  "fleet_manager =
     (snd (register_model workstation
             (new_manager ''models'' [''/tmp/model.tflite'' \<mapsto> ''weights''])
             ''/tmp/model.tflite'' ''v2'' (9 / 10) None 1000000))\<lparr>notify_device := True\<rparr>"

text \<open>
  A construction with \<^verbatim>\<open>models_dir = 'store'\<close> and the default registry file, whose
  directory \<^verbatim>\<open>./models\<close> does not exist.
\<close>

definition detached_platform :: platform where
  "detached_platform = local_platform [''store'', ''/tmp''] ''./models/registry.json''"

text \<open>An orchestrator with no current job, a small configuration, and a database of two samples, one labeled.\<close>

definition small_config :: RetrainingConfig where
  "small_config =
     \<lparr>min_samples_for_retraining = 2, min_new_samples = 1, min_labeled_ratio = 1 / 2,
      validation_split = 1 / 5, min_accuracy_improvement = 1 / 100\<rparr>"

definition idle_orchestrator :: RetrainingOrchestrator where
  "idle_orchestrator =
     \<lparr>config = small_config, current_job = None, job_history = [], production_accuracy = 0,
      job_threads = 0\<rparr>"

definition two_sample_collector :: DataCollector where
  "two_sample_collector =
     empty_collector\<lparr>samples := [make_row 1 ''motor'' (Some 2) False,
                                 make_row 2 ''motor'' None False]\<rparr>"

definition empty_version_ops :: "(manager_op \<times> datetime) list" where
  "empty_version_ops =
     [(Register_model ''/tmp/model.tflite'' [] (9 / 10) None, 1000000),
      (Deploy_model [] None, 2000000),
      (Register_model ''/tmp/model.tflite'' ''v2'' (19 / 20) None, 3000000),
      (Deploy_model ''v2'' None, 4000000)]"

section \<open>Properties of the labeling queue\<close>

lemma hd_sort_key_least:
  assumes "sort_key f xs = y # ys" "x \<in> set xs"
  shows "f y \<le> f x"
proof -
  have "sorted (map f (sort_key f xs))" by simp
  with assms(1) have "\<forall>z\<in>set ys. f y \<le> f z" by simp
  moreover have "x \<in> set (y # ys)" using assms by (metis set_sort)
  ultimately show ?thesis by auto
qed

text \<open>
  C9.  Whenever some task is PENDING, \<^verbatim>\<open>get_next_task\<close> returns a PENDING task (claimed
  when a labeler id is given) whose priority is maximal among the PENDING tasks and
  whose \<^verbatim>\<open>created_at\<close> is the earliest among the PENDING tasks of that priority.
\<close>

theorem get_next_task_priority_order:
  assumes "\<exists>kt\<in>set (tasks svc). task_status (snd kt) = LS_PENDING"
  shows "\<exists>kt\<in>set (tasks svc).
           task_status (snd kt) = LS_PENDING \<and>
           fst (get_next_task svc labeler_id now) =
             Some (if truthy labeler_id
                   then (snd kt)\<lparr>assigned_to := labeler_id, assigned_at := Some now,
                                  task_status := LS_IN_PROGRESS\<rparr>
                   else snd kt) \<and>
           (\<forall>kt'\<in>set (tasks svc). task_status (snd kt') = LS_PENDING \<longrightarrow>
              priority_value (priority (snd kt')) \<le> priority_value (priority (snd kt)) \<and>
              (priority (snd kt') = priority (snd kt) \<longrightarrow>
                 task_created_at (snd kt) \<le> task_created_at (snd kt')))"
proof -
  from assms have "pending_tasks svc \<noteq> []"
    by (auto simp: pending_tasks_def filter_empty_conv)
  then have "sort_key sort_key_of (pending_tasks svc) \<noteq> []"
    by (metis length_0_conv length_sort)
  then obtain kt rest where srt: "sort_key sort_key_of (pending_tasks svc) = kt # rest"
    by (cases "sort_key sort_key_of (pending_tasks svc)") auto
  then have "kt \<in> set (pending_tasks svc)"
    by (metis list.set_intros(1) set_sort)
  then have mem: "kt \<in> set (tasks svc)" and pend: "task_status (snd kt) = LS_PENDING"
    by (auto simp: pending_tasks_def)
  have ret: "fst (get_next_task svc labeler_id now) =
             Some (if truthy labeler_id
                   then (snd kt)\<lparr>assigned_to := labeler_id, assigned_at := Some now,
                                  task_status := LS_IN_PROGRESS\<rparr>
                   else snd kt)"
    using srt by (simp add: get_next_task_def Let_def)
  have best: "priority_value (priority (snd kt')) \<le> priority_value (priority (snd kt)) \<and>
              (priority (snd kt') = priority (snd kt) \<longrightarrow>
                 task_created_at (snd kt) \<le> task_created_at (snd kt'))"
    if "kt' \<in> set (tasks svc)" "task_status (snd kt') = LS_PENDING" for kt'
  proof -
    from that have "kt' \<in> set (pending_tasks svc)" by (simp add: pending_tasks_def)
    from hd_sort_key_least[OF srt this] have "sort_key_of kt \<le> sort_key_of kt'" .
    then show ?thesis
      by (auto simp: sort_key_of_def less_eq_prod_def)
  qed
  from mem pend ret best show ?thesis by blast
qed

theorem get_next_task_priority_order_witness:
  "(\<exists>kt\<in>set (tasks queue_service). task_status (snd kt) = LS_PENDING) \<and>
   (\<exists>kt\<in>set (tasks queue_service).
      fst (get_next_task queue_service None 0) = Some (snd kt) \<and>
      priority (snd kt) = URGENT \<and> task_created_at (snd kt) = 20)"
proof -
  have h: "\<exists>kt\<in>set (tasks queue_service). task_status (snd kt) = LS_PENDING"
    by (simp add: queue_service_def make_task_def)
  from get_next_task_priority_order[OF h, of None 0]
  obtain kt where kt: "kt \<in> set (tasks queue_service)"
     "fst (get_next_task queue_service None 0) = Some (snd kt)"
     "\<forall>kt'\<in>set (tasks queue_service). task_status (snd kt') = LS_PENDING \<longrightarrow>
              priority_value (priority (snd kt')) \<le> priority_value (priority (snd kt)) \<and>
              (priority (snd kt') = priority (snd kt) \<longrightarrow>
                 task_created_at (snd kt) \<le> task_created_at (snd kt'))"
    by (auto simp: truthy_def)
  from kt(1,3) have "priority (snd kt) = URGENT \<and> task_created_at (snd kt) = 20"
    by (auto simp: queue_service_def make_task_def)
  with h kt show ?thesis by blast
qed

text \<open>
  C10.  Without a labeler id \<^verbatim>\<open>get_next_task\<close> returns the service unchanged (hence
  no task's status, assignee or assignment time is modified), and what it returns is
  one of the PENDING tasks as stored, or nothing when no task is PENDING.
\<close>

theorem get_next_task_unclaimed_pure:
  "snd (get_next_task svc None now) = svc \<and>
   (case fst (get_next_task svc None now) of
      None \<Rightarrow> pending_tasks svc = []
    | Some t \<Rightarrow> t \<in> snd ` set (pending_tasks svc))"
proof -
  have "set (sort_key sort_key_of (pending_tasks svc)) = set (pending_tasks svc)" by simp
  then show ?thesis
    by (cases "sort_key sort_key_of (pending_tasks svc)")
       (auto simp: get_next_task_def truthy_def)
qed

text \<open>How each operation changes the status stored under a task id.\<close>

lemma status_of_update:
  "status_of (svc\<lparr>tasks := AList.update k t (tasks svc)\<rparr>) tid =
     (if tid = k then Some (task_status t) else status_of svc tid)"
  by (simp add: status_of_def update_conv')

lemma tasks_update_labeler_stats [simp]:
  "tasks (update_labeler_stats svc labeler task) = tasks svc"
  by (simp add: update_labeler_stats_def Let_def split: option.splits prod.splits)

lemma status_of_update_labeler_stats [simp]:
  "status_of (update_labeler_stats svc labeler task) tid = status_of svc tid"
  by (simp add: status_of_def)

lemma status_of_submit_label:
  "status_of (fst (snd (submit_label svc dc k label labeler_id conf notes now))) tid =
     (if tid = k \<and> status_of svc k \<noteq> None then Some LS_LABELED else status_of svc tid)"
  by (auto simp: submit_label_def Let_def status_of_update split: option.splits)
     (auto simp: status_of_def)

lemma status_of_skip_task:
  "status_of (snd (skip_task svc k reason now)) tid =
     (if tid = k \<and> status_of svc k \<noteq> None then Some LS_SKIPPED else status_of svc tid)"
  by (auto simp: skip_task_def status_of_update split: option.splits)
     (auto simp: status_of_def)

lemma status_of_dispute_label:
  "status_of (snd (dispute_label svc k reason)) tid =
     (if tid = k \<and> status_of svc k \<noteq> None then Some LS_DISPUTED else status_of svc tid)"
  by (auto simp: dispute_label_def status_of_update split: option.splits)
     (auto simp: status_of_def)

lemma status_of_get_next_task:
  assumes "distinct (map fst (tasks svc))"
  shows "status_of (snd (get_next_task svc labeler_id now)) tid = status_of svc tid \<or>
         (status_of svc tid = Some LS_PENDING \<and>
          status_of (snd (get_next_task svc labeler_id now)) tid = Some LS_IN_PROGRESS)"
proof (cases "sort_key sort_key_of (pending_tasks svc)")
  case Nil
  then show ?thesis by (simp add: get_next_task_def)
next
  case (Cons kt rest)
  then have "kt \<in> set (pending_tasks svc)" by (metis list.set_intros(1) set_sort)
  then have "kt \<in> set (tasks svc)" "task_status (snd kt) = LS_PENDING"
    by (auto simp: pending_tasks_def)
  with assms have "status_of svc (fst kt) = Some LS_PENDING"
    by (cases kt) (simp add: status_of_def)
  with Cons show ?thesis
    by (auto simp: get_next_task_def Let_def status_of_update)
qed

text \<open>
  C8, as stated, fails: \<^verbatim>\<open>submit_label\<close> and \<^verbatim>\<open>skip_task\<close> move a DISPUTED task to
  LABELED and to SKIPPED, and \<^verbatim>\<open>dispute_label\<close> moves a SKIPPED task to DISPUTED.
\<close>

theorem leaves_disputed_counterexample:
  "status_of disputed_service 1 = Some LS_DISPUTED \<and>
   status_of (fst (snd (submit_label disputed_service None 1 2 None 1 [] 40))) 1 = Some LS_LABELED \<and>
   status_of (snd (skip_task disputed_service 1 [] 40)) 1 = Some LS_SKIPPED \<and>
   status_of disputed_service 2 = Some LS_SKIPPED \<and>
   status_of (snd (dispute_label disputed_service 2 ''again'')) 2 = Some LS_DISPUTED"
  by (simp add: disputed_service_def make_task_def status_of_def submit_label_def skip_task_def
        dispute_label_def truthy_def Let_def)

text \<open>
  C8, amended.  For a task stored under \<open>tid\<close> with status \<open>st\<close> (task ids being the
  keys of a dict, hence distinct): \<^verbatim>\<open>get_next_task\<close> leaves the status as it is, or
  moves it from PENDING to IN_PROGRESS, so it never changes a DISPUTED or SKIPPED
  task; \<^verbatim>\<open>submit_label\<close>, \<^verbatim>\<open>skip_task\<close> and \<^verbatim>\<open>dispute_label\<close> called on another task id
  leave the status as it is, and called on \<open>tid\<close> itself they set it to LABELED,
  SKIPPED and DISPUTED, whatever \<open>st\<close> was.
\<close>

theorem status_transitions:
  assumes "distinct (map fst (tasks svc))"
    and "status_of svc tid = Some st"
  shows "(status_of (snd (get_next_task svc claimer now)) tid = Some st \<or>
          (st = LS_PENDING \<and>
           status_of (snd (get_next_task svc claimer now)) tid = Some LS_IN_PROGRESS)) \<and>
         status_of (fst (snd (submit_label svc dc k label labeler_id conf notes now))) tid =
           Some (if k = tid then LS_LABELED else st) \<and>
         status_of (snd (skip_task svc k reason now)) tid =
           Some (if k = tid then LS_SKIPPED else st) \<and>
         status_of (snd (dispute_label svc k reason)) tid =
           Some (if k = tid then LS_DISPUTED else st)"
  using status_of_get_next_task[OF assms(1), of claimer now tid] assms(2)
  by (auto simp: status_of_submit_label status_of_skip_task status_of_dispute_label)

theorem status_transitions_witness:
  "distinct (map fst (tasks disputed_service)) \<and>
   status_of disputed_service 1 = Some LS_DISPUTED \<and>
   status_of (snd (get_next_task disputed_service (Some ''ann'') 40)) 1 = Some LS_DISPUTED \<and>
   status_of (fst (snd (submit_label disputed_service None 3 2 (Some ''ann'') 1 [] 40))) 1
     = Some LS_DISPUTED \<and>
   status_of (fst (snd (submit_label disputed_service None 1 2 (Some ''ann'') 1 [] 40))) 1
     = Some LS_LABELED"
proof -
  have d: "distinct (map fst (tasks disputed_service))"
    by (simp add: disputed_service_def)
  have s: "status_of disputed_service 1 = Some LS_DISPUTED"
    by (simp add: disputed_service_def make_task_def status_of_def)
  from status_transitions[OF d s, of "Some ''ann''" 40 None 3 2 "Some ''ann''" 1 "[]" "[]"]
       status_transitions[OF d s, of "Some ''ann''" 40 None 1 2 "Some ''ann''" 1 "[]" "[]"]
  show ?thesis using d s by simp
qed

section \<open>Properties of the sample store\<close>

text \<open>
  C5, as stated, fails: an envelope with an empty device id and an empty feature
  vector is enqueued and \<^verbatim>\<open>receive_sample\<close> returns \<^verbatim>\<open>True\<close>.
\<close>

theorem receive_sample_blank_counterexample:
  "sd_device_id blank_sample_data = Some [] \<and> sd_features blank_sample_data = Some [] \<and>
   fst (receive_sample empty_collector blank_sample_data 5) = True \<and>
   sample_queue (snd (receive_sample empty_collector blank_sample_data 5))
     = [from_dict blank_sample_data 5] \<and>
   ts_device_id (from_dict blank_sample_data 5) = [] \<and>
   ts_features (from_dict blank_sample_data 5) = []"
  by (simp add: receive_sample_def empty_collector_def blank_sample_data_def from_dict_def
        get_default_def Let_def)

text \<open>
  C5, amended.  \<^verbatim>\<open>receive_sample\<close> does not validate the envelope: for every sample
  dict (absent keys are defaulted by \<^verbatim>\<open>from_dict\<close>) the sample is appended to the
  ingestion queue and the result is \<^verbatim>\<open>True\<close>, provided the optional
  \<^verbatim>\<open>on_sample_received\<close> callback, if set, does not raise.
\<close>

theorem receive_sample_accepts:
  assumes "case on_sample_received dc of None \<Rightarrow> True | Some callback \<Rightarrow> callback (from_dict data now)"
  shows "receive_sample dc data now =
           (True, dc\<lparr>sample_queue := sample_queue dc @ [from_dict data now]\<rparr>)"
  using assms by (cases "on_sample_received dc") (simp_all add: receive_sample_def Let_def)

theorem receive_sample_accepts_witness:
  "(case on_sample_received empty_collector of None \<Rightarrow> True
    | Some callback \<Rightarrow> callback (from_dict blank_sample_data 5)) \<and>
   receive_sample empty_collector blank_sample_data 5 =
     (True, empty_collector\<lparr>sample_queue := [from_dict blank_sample_data 5]\<rparr>)"
proof -
  have h: "case on_sample_received empty_collector of None \<Rightarrow> True
           | Some callback \<Rightarrow> callback (from_dict blank_sample_data 5)"
    by (simp add: empty_collector_def)
  from receive_sample_accepts[OF h] show ?thesis using h
    by (simp add: empty_collector_def)
qed

text \<open>
  \<^verbatim>\<open>set_label\<close> called twice: the samples table is as after one call, and the
  counter of the owning device has been incremented twice.
\<close>

lemma select_device_id_relabel:
  "select_device_id (map (\<lambda>r. if sr_id r = sid then r\<lparr>true_label := l\<rparr> else r) rows) sid
     = select_device_id rows sid"
  by (induction rows) (auto simp: select_device_id_def)

lemma set_label_samples:
  "samples (snd (set_label dc sid l)) =
     map (\<lambda>r. if sr_id r = sid then r\<lparr>true_label := Some l\<rparr> else r) (samples dc)"
  by (simp add: set_label_def Let_def)

lemma set_label_devices:
  "devices (snd (set_label dc sid l)) =
     map (\<lambda>d. if Some (dr_device_id d) = select_device_id (samples dc) sid
               then d\<lparr>labeled_samples := labeled_samples d + 1\<rparr> else d) (devices dc)"
  by (simp add: set_label_def Let_def select_device_id_relabel)

lemma set_label_owner:
  "select_device_id (samples (snd (set_label dc sid l))) sid = select_device_id (samples dc) sid"
  by (simp add: set_label_samples select_device_id_relabel)

lemma set_label_samples_idem:
  "samples (snd (set_label (snd (set_label dc sid l)) sid l)) = samples (snd (set_label dc sid l))"
  by (simp add: set_label_samples)

lemma set_label_twice_devices:
  "devices (snd (set_label (snd (set_label dc sid l)) sid l)) =
     map (\<lambda>d. if Some (dr_device_id d) = select_device_id (samples dc) sid
               then d\<lparr>labeled_samples := labeled_samples d + 2\<rparr> else d) (devices dc)"
proof -
  have "devices (snd (set_label (snd (set_label dc sid l)) sid l)) =
     map (\<lambda>d. if Some (dr_device_id d) = select_device_id (samples dc) sid
               then d\<lparr>labeled_samples := labeled_samples d + 1\<rparr> else d)
         (devices (snd (set_label dc sid l)))"
    by (simp only: set_label_devices[of "snd (set_label dc sid l)"] set_label_owner)
  then show ?thesis
    by (simp add: set_label_devices)
qed

text \<open>
  C7.  The claim (the second call of \<^verbatim>\<open>set_label\<close> with the same arguments changes
  nothing, the counter is incremented once) against the code on a database with one
  sample: after one call the device's \<^verbatim>\<open>labeled_samples\<close> is 1, after two calls it is 2,
  while \<^verbatim>\<open>get_stats_summary\<close> counts one labeled sample; the two states differ.
\<close>

theorem set_label_twice_counts_twice:
  "map labeled_samples (devices (snd (set_label one_sample_collector 1 2))) = [1] \<and>
   map labeled_samples (devices (snd (set_label (snd (set_label one_sample_collector 1 2)) 1 2))) = [2] \<and>
   stats_labeled_samples (get_stats_summary (snd (set_label (snd (set_label one_sample_collector 1 2)) 1 2))) = 1 \<and>
   snd (set_label (snd (set_label one_sample_collector 1 2)) 1 2) \<noteq> snd (set_label one_sample_collector 1 2)"
  by (simp add: set_label_def one_sample_collector_def empty_collector_def make_row_def
       select_device_id_def get_stats_summary_def Let_def)

section \<open>Properties of the retraining orchestrator\<close>

text \<open>
  The float division is accurate to half a unit in the last place: its relative error
  is at most \<open>2 ^ - 53\<close>.
\<close>

lemma bit_length_bounds:
  "0 < n \<Longrightarrow> 2 ^ (bit_length n - 1) \<le> n \<and> n < 2 ^ bit_length n"
proof (induction n rule: bit_length.induct)
  case (1 n)
  show ?case
  proof (cases "n div 2 = 0")
    case True
    with "1.prems" have "n = 1" by (simp add: div_eq_0_iff) 
    then show ?thesis by (simp add: bit_length.simps)
  next
    case False
    then have pos: "0 < n div 2" by simp
    from "1.IH"[OF _ pos] "1.prems"
    have ih: "2 ^ (bit_length (n div 2) - 1) \<le> n div 2" "n div 2 < 2 ^ bit_length (n div 2)"
      by auto
    have bl: "bit_length n = Suc (bit_length (n div 2))"
      using "1.prems" by (subst bit_length.simps) simp
    have blpos: "0 < bit_length (n div 2)"
      using pos by (subst bit_length.simps) simp
    have "2 ^ (bit_length n - 1) = 2 * 2 ^ (bit_length (n div 2) - 1)"
      using bl blpos by (cases "bit_length (n div 2)") simp_all
    also have "\<dots> \<le> 2 * (n div 2)" using ih(1) by simp
    also have "\<dots> \<le> n" by simp
    finally have lo: "2 ^ (bit_length n - 1) \<le> n" .
    have "n < 2 * (n div 2) + 2" by presburger
    also have "\<dots> \<le> 2 * 2 ^ bit_length (n div 2)" using ih(2) by simp
    finally have "n < 2 ^ bit_length n" by (simp add: bl)
    with lo show ?thesis by simp
  qed
qed

lemma round_half_even_error:
  assumes "0 < d"
  shows "\<bar>real_of_int (round_half_even n d) - real_of_int n / real_of_int d\<bar> \<le> 1 / 2"
proof -
  define q where "q = n div d"
  define r where "r = n mod d"
  have n: "n = q * d + r" by (simp add: q_def r_def)
  have r: "0 \<le> r" "r < d" using assms by (simp_all add: r_def)
  have frac: "real_of_int n / real_of_int d = real_of_int q + real_of_int r / real_of_int d"
    using assms by (simp add: n field_simps)
  have d: "0 < real_of_int d" using assms by simp
  consider "2 * r < d" | "d < 2 * r" | "2 * r = d" by linarith
  then show ?thesis
  proof cases
    case 1
    then have "round_half_even n d = q" by (simp add: round_half_even_def q_def r_def Let_def)
    moreover have "2 * real_of_int r < real_of_int d" using 1 by linarith
    then have "real_of_int r / real_of_int d \<le> 1 / 2"
      using d by (simp add: field_simps)
    moreover have "0 \<le> real_of_int r / real_of_int d" using r d by simp
    ultimately show ?thesis by (simp add: frac)
  next
    case 2
    then have "round_half_even n d = q + 1" by (simp add: round_half_even_def q_def r_def Let_def)
    moreover have "real_of_int d < 2 * real_of_int r" using 2 by linarith
    then have "1 / 2 \<le> real_of_int r / real_of_int d"
      using d by (simp add: field_simps)
    moreover have "real_of_int r / real_of_int d \<le> 1" using r d by (simp add: field_simps)
    ultimately show ?thesis by (simp add: frac)
  next
    case 3
    then have rhe: "round_half_even n d = q \<or> round_half_even n d = q + 1"
      by (simp add: round_half_even_def q_def r_def Let_def)
    from 3 assms have rpos: "0 < real_of_int r" by simp
    have "real_of_int d = 2 * real_of_int r" using 3 by linarith
    with rpos have half: "real_of_int r / real_of_int d = 1 / 2" by simp
    have nd: "real_of_int n / real_of_int d = real_of_int q + 1 / 2"
      unfolding frac half ..
    from rhe show ?thesis by (auto simp: nd)
  qed
qed

lemma floor_log2_lower:
  assumes "0 < a" "0 < b"
  shows "if 0 \<le> floor_log2 a b then b * 2 ^ nat (floor_log2 a b) \<le> a
         else b \<le> a * 2 ^ nat (- floor_log2 a b)"
proof -
  define la where "la = bit_length (nat a)"
  define lb where "lb = bit_length (nat b)"
  define k where "k = int la - int lb"
  from bit_length_bounds[of "nat a"] assms(1)
  have a: "2 ^ (la - 1) \<le> nat a" "nat a < 2 ^ la" by (simp_all add: la_def)
  from bit_length_bounds[of "nat b"] assms(2)
  have b: "2 ^ (lb - 1) \<le> nat b" "nat b < 2 ^ lb" by (simp_all add: lb_def)
  have la: "0 < la" using a(2) assms(1) by (cases la) auto
  have lb: "0 < lb" using b(2) assms(2) by (cases lb) auto
  have ai: "2 ^ (la - 1) \<le> a" using a(1) assms(1)
    by (simp add: le_nat_iff)
  have bi: "b < 2 ^ lb" using b(2) assms(2)
    by (simp add: nat_less_iff)
  have fl: "floor_log2 a b =
     (if 0 \<le> k then (if b * 2 ^ nat k \<le> a then k else k - 1)
         else (if b \<le> a * 2 ^ nat (- k) then k else k - 1))"
    by (simp add: floor_log2_def la_def lb_def k_def Let_def)
  text \<open>the bound for the exponent k - 1\<close>
  have low: "if 0 \<le> k - 1 then b * 2 ^ nat (k - 1) \<le> a else b \<le> a * 2 ^ nat (- (k - 1))"
  proof (cases "0 \<le> k - 1")
    case True
    then have eq: "lb + nat (k - 1) = la - 1" using la lb unfolding k_def by arith
    have "b * 2 ^ nat (k - 1) \<le> 2 ^ lb * 2 ^ nat (k - 1)"
      using bi by (simp add: mult_right_mono)
    also have "\<dots> = (2::int) ^ (la - 1)" by (simp add: power_add[symmetric] eq)
    also have "\<dots> \<le> a" by (rule ai)
    finally show ?thesis using True by simp
  next
    case False
    then have eq: "(la - 1) + nat (- (k - 1)) = lb" using la lb unfolding k_def by arith
    have "b \<le> 2 ^ lb" using bi by simp
    also have "\<dots> = (2::int) ^ (la - 1) * 2 ^ nat (- (k - 1))"
      by (simp only: power_add[symmetric] eq)
    also have "\<dots> \<le> a * 2 ^ nat (- (k - 1))"
      using ai by (simp add: mult_right_mono)
    finally show ?thesis using False by simp
  qed
  show ?thesis
    using low by (auto simp: fl split: if_splits)
qed

lemma true_divide_error:
  assumes "0 < a" "0 < b"
  shows "\<bar>true_divide a b - real_of_int a / real_of_int b\<bar>
           \<le> (real_of_int a / real_of_int b) / 2 ^ 53"
proof -
  define e where "e = floor_log2 a b"
  define s where "s = 52 - e"
  have bpos: "0 < real_of_int b" using assms by simp
  have low: "if 0 \<le> e then b * 2 ^ nat e \<le> a else b \<le> a * 2 ^ nat (- e)"
    unfolding e_def by (rule floor_log2_lower[OF assms])
  have apos: "0 < real_of_int a" using assms by simp
  text \<open>The bound in real numbers, with the exponent split by sign.\<close>
  have lowr: "if 0 \<le> e then real_of_int b * 2 ^ nat e \<le> real_of_int a
              else real_of_int b \<le> real_of_int a * 2 ^ nat (- e)"
  proof (cases "0 \<le> e")
    case True
    with low have "b * 2 ^ nat e \<le> a" by simp
    then have "real_of_int (b * 2 ^ nat e) \<le> real_of_int a" by (simp only: of_int_le_iff)
    with True show ?thesis by simp
  next
    case False
    with low have "b \<le> a * 2 ^ nat (- e)" by simp
    then have "real_of_int b \<le> real_of_int (a * 2 ^ nat (- e))" by (simp only: of_int_le_iff)
    with False show ?thesis by simp
  qed
  show ?thesis
  proof (cases "0 \<le> s")
    case True
    define P :: real where "P = 2 ^ nat s"
    have Ppos: "0 < P" by (simp add: P_def)
    define R where "R = real_of_int (round_half_even (a * 2 ^ nat s) b)"
    have td: "true_divide a b = R / P"
      using True assms by (simp add: true_divide_def Let_def s_def e_def R_def P_def)
    have "\<bar>real_of_int (round_half_even (a * 2 ^ nat s) b)
             - real_of_int (a * 2 ^ nat s) / real_of_int b\<bar> \<le> 1 / 2"
      by (rule round_half_even_error[OF assms(2)])
    then have err: "\<bar>R - real_of_int a * P / real_of_int b\<bar> \<le> 1 / 2"
      by (simp add: R_def P_def)
    have "R / P - real_of_int a / real_of_int b = (R - real_of_int a * P / real_of_int b) / P"
      using Ppos bpos by (simp add: field_simps)
    then have "\<bar>R / P - real_of_int a / real_of_int b\<bar>
                 = \<bar>R - real_of_int a * P / real_of_int b\<bar> / P"
      using Ppos by (simp add: abs_divide)
    also have "\<dots> \<le> (1 / 2) / P"
      using Ppos by (intro divide_right_mono[OF err]) simp
    finally have step1: "\<bar>R / P - real_of_int a / real_of_int b\<bar> \<le> (1 / 2) / P" .
    have step2: "(1 / 2) / P \<le> (real_of_int a / real_of_int b) / 2 ^ 53"
    proof (cases "0 \<le> e")
      case True
      with \<open>0 \<le> s\<close> have "nat s + nat e = 52" by (simp add: s_def)
      then have "P * 2 ^ nat e = 2 ^ 52" by (simp add: P_def power_add[symmetric])
      moreover from True lowr have "real_of_int b * 2 ^ nat e \<le> real_of_int a" by simp
      ultimately have "real_of_int b * 2 ^ 52 \<le> real_of_int a * P"
        by (metis Ppos mult.assoc mult.commute mult_le_cancel_left_pos)
      then show ?thesis using Ppos bpos by (simp add: field_simps)
    next
      case False
      then have "nat s = 52 + nat (- e)" by (simp add: s_def)
      then have P: "P = 2 ^ 52 * 2 ^ nat (- e)" by (simp add: P_def power_add)
      from False lowr have "real_of_int b \<le> real_of_int a * 2 ^ nat (- e)" by simp
      then have "real_of_int b * 2 ^ 52 \<le> real_of_int a * P"
        by (simp add: P)
      then show ?thesis using Ppos bpos by (simp add: field_simps)
    qed
    from step1 step2 show ?thesis by (simp add: td)
  next
    case False
    define Q :: real where "Q = 2 ^ nat (- s)"
    have Qpos: "0 < Q" by (simp add: Q_def)
    define R where "R = real_of_int (round_half_even a (b * 2 ^ nat (- s)))"
    have td: "true_divide a b = R * Q"
      using False assms by (simp add: true_divide_def Let_def s_def e_def R_def Q_def)
    have dpos: "0 < b * 2 ^ nat (- s)" using assms(2) by simp
    have "\<bar>real_of_int (round_half_even a (b * 2 ^ nat (- s)))
             - real_of_int a / real_of_int (b * 2 ^ nat (- s))\<bar> \<le> 1 / 2"
      by (rule round_half_even_error[OF dpos])
    then have err: "\<bar>R - real_of_int a / (real_of_int b * Q)\<bar> \<le> 1 / 2"
      by (simp add: R_def Q_def)
    have "R * Q - real_of_int a / real_of_int b = (R - real_of_int a / (real_of_int b * Q)) * Q"
      using Qpos bpos by (simp add: field_simps)
    then have "\<bar>R * Q - real_of_int a / real_of_int b\<bar>
                 = \<bar>R - real_of_int a / (real_of_int b * Q)\<bar> * Q"
      using Qpos by (simp add: abs_mult)
    also have "\<dots> \<le> (1 / 2) * Q"
      using Qpos by (intro mult_right_mono[OF err]) simp
    finally have step1: "\<bar>R * Q - real_of_int a / real_of_int b\<bar> \<le> (1 / 2) * Q" .
    from False have epos: "0 \<le> e" and ne: "nat e = 52 + nat (- s)" by (simp_all add: s_def)
    from epos lowr have "real_of_int b * 2 ^ nat e \<le> real_of_int a" by simp
    then have "real_of_int b * (2 ^ 52 * Q) \<le> real_of_int a"
      by (simp add: ne power_add Q_def)
    then have step2: "(1 / 2) * Q \<le> (real_of_int a / real_of_int b) / 2 ^ 53"
      using Qpos bpos by (simp add: field_simps)
    from step1 step2 show ?thesis by (simp add: td)
  qed
qed

text \<open>
  The float division at some quotients: one half is exact, one tenth is rounded up (to
  the double that the literal \<^verbatim>\<open>0.1\<close> denotes), one third is rounded down.
\<close>

lemma true_divide_half: "true_divide 1 2 = 1 / 2"
  by (simp add: true_divide_def floor_log2_def round_half_even_def bit_length.simps Let_def)

lemma true_divide_tenth: "true_divide 1 10 = 3602879701896397 / 36028797018963968"
  by (simp add: true_divide_def floor_log2_def round_half_even_def bit_length.simps Let_def)

lemma true_divide_third: "true_divide 1 3 = 6004799503160661 / 18014398509481984"
  by (simp add: true_divide_def floor_log2_def round_half_even_def bit_length.simps Let_def)

lemma true_divide_two_thirds: "true_divide 2 3 = 6004799503160661 / 9007199254740992"
  by (simp add: true_divide_def floor_log2_def round_half_even_def bit_length.simps Let_def)

text \<open>
  C4.  \<^verbatim>\<open>should_retrain\<close> is false whenever the current job exists and its status is
  neither COMPLETED nor FAILED; and it is true exactly when there is no such job and
  the three thresholds on the statistics of the sample store are met: total samples,
  labeling rate, and total minus used-for-training samples.
\<close>

theorem should_retrain_rule:
  "(\<forall>job. current_job orch = Some job \<and> job_status job \<noteq> RS_COMPLETED \<and>
          job_status job \<noteq> RS_FAILED \<longrightarrow> \<not> should_retrain orch dc) \<and>
   should_retrain orch dc =
     (\<not> (\<exists>job. current_job orch = Some job \<and> job_status job \<noteq> RS_COMPLETED \<and>
                job_status job \<noteq> RS_FAILED) \<and>
      min_samples_for_retraining (config orch) \<le> stats_total_samples (get_stats_summary dc) \<and>
      min_labeled_ratio (config orch) \<le> stats_labeling_rate (get_stats_summary dc) \<and>
      min_new_samples (config orch)
        \<le> stats_total_samples (get_stats_summary dc) - stats_used_for_training (get_stats_summary dc))"
  by (auto simp: should_retrain_def job_in_flight_def Let_def split: option.splits)

lemma two_sample_stats:
  "stats_total_samples (get_stats_summary two_sample_collector) = 2"
  "stats_labeling_rate (get_stats_summary two_sample_collector) = 1 / 2"
  "stats_used_for_training (get_stats_summary two_sample_collector) = 0"
  by (simp_all add: get_stats_summary_def two_sample_collector_def empty_collector_def
        make_row_def true_divide_half Let_def)

theorem should_retrain_rule_witness:
  "(\<exists>job. current_job (training_orchestrator\<lparr>config := small_config\<rparr>) = Some job \<and>
          job_status job \<noteq> RS_COMPLETED \<and> job_status job \<noteq> RS_FAILED) \<and>
   \<not> should_retrain (training_orchestrator\<lparr>config := small_config\<rparr>) two_sample_collector \<and>
   current_job idle_orchestrator = None \<and>
   should_retrain idle_orchestrator two_sample_collector"
  using should_retrain_rule[of "training_orchestrator\<lparr>config := small_config\<rparr>" two_sample_collector]
        should_retrain_rule[of idle_orchestrator two_sample_collector]
  by (simp add: two_sample_stats training_orchestrator_def idle_orchestrator_def small_config_def
        new_job_def)

lemma job_in_flight_iff:
  "job_in_flight orch =
     (\<exists>job. current_job orch = Some job \<and> job_status job \<noteq> RS_COMPLETED \<and> job_status job \<noteq> RS_FAILED)"
  by (auto simp: job_in_flight_def split: option.splits)

text \<open>
  C1.  The claim (a job in flight is not replaced by \<^verbatim>\<open>trigger_retraining\<close>) against the
  code: with job 1 in status TRAINING, a manual trigger makes a new SCHEDULED job 5 the
  current job and starts a second job thread.
\<close>

theorem trigger_replaces_job_in_flight:
  "job_in_flight training_orchestrator \<and>
   map_option job_id (current_job training_orchestrator) = Some 1 \<and>
   map_option job_status (current_job training_orchestrator) = Some TRAINING \<and>
   fst (trigger_retraining training_orchestrator ''manual'' 5000000) = 5 \<and>
   map_option job_id (current_job (snd (trigger_retraining training_orchestrator ''manual'' 5000000)))
     = Some 5 \<and>
   map_option job_status (current_job (snd (trigger_retraining training_orchestrator ''manual'' 5000000)))
     = Some SCHEDULED \<and>
   job_threads (snd (trigger_retraining training_orchestrator ''manual'' 5000000)) = 2"
  by (simp add: training_orchestrator_def job_in_flight_def trigger_retraining_def new_job_def
       seconds_of_def)

text \<open>The scheduling loop, which asks \<^verbatim>\<open>should_retrain\<close> first, keeps a job in flight.\<close>

lemma worker_round_single_flight:
  "job_in_flight orch \<Longrightarrow> worker_round orch dc now = orch"
  by (simp add: worker_round_def should_retrain_def)

section \<open>Properties of the model registry\<close>

lemma workstation_paths:
  "resolve workstation ''/tmp/model.tflite'' = ''/tmp/model.tflite''"
  "resolve workstation ''/tmp/missing.tflite'' = ''/tmp/missing.tflite''"
  "resolve workstation ''models/model_v2.tflite'' = ''models/model_v2.tflite''"
  "resolve workstation ''models/model_.tflite'' = ''models/model_.tflite''"
  "is_dir workstation ''/tmp/missing.tflite'' = False"
  "copy2_error workstation ''/tmp/model.tflite'' ''models/model_v2.tflite'' = None"
  "copy2_error workstation ''/tmp/model.tflite'' ''models/model_.tflite'' = None"
  "save_error workstation = None"
  by (simp_all add: workstation_def local_platform_def normpath_def parent_dir_def
        norm_segments_def norm_step_def is_absolute_def Let_def)

lemma fleet_manager_eq:
  "fleet_manager =
     \<lparr>models_dir = ''models'',
      registry = [(''v2'', \<lparr>version = ''v2'', file_path = ''models/model_v2.tflite'',
                           size_bytes = 7, hash_sha256 = ''sha256:weights'',
                           created_at = 1000000, deployed_at = None, accuracy = 9 / 10,
                           is_production = False, metadata = None\<rparr>)],
      production_version = None, deployments = [], device_status = [], notify_device = True,
      files = [''/tmp/model.tflite'' \<mapsto> ''weights'', ''models/model_v2.tflite'' \<mapsto> ''weights''],
      registry_document =
        Some ([(''v2'', \<lparr>version = ''v2'', file_path = ''models/model_v2.tflite'',
                          size_bytes = 7, hash_sha256 = ''sha256:weights'',
                          created_at = 1000000, deployed_at = None, accuracy = 9 / 10,
                          is_production = False, metadata = None\<rparr>)], None)\<rparr>"
proof -
  have "sha256 workstation = plain_digest"
    by (simp add: workstation_def local_platform_def Let_def)
  then show ?thesis
    by (simp add: fleet_manager_def register_model_def path_exists_def new_manager_def
          dest_path_of_def save_registry_def workstation_paths plain_digest_def Let_def)
qed




text \<open>
  The failures of the copy and of the registry write, on the platform without
  symbolic links: a version naming a directory that does not exist, a source that is
  the destination file under another spelling, and a registry file whose directory does
  not exist (the entry is then in the registry although the call raised).
\<close>

lemma register_model_missing_directory:
  "register_model workstation fleet_manager ''/tmp/model.tflite'' ''a/b'' 1 None 5
     = (Inl FileNotFoundError, fleet_manager)"
  by (simp add: register_model_def path_exists_def dest_path_of_def fleet_manager_eq
        workstation_def local_platform_def normpath_def parent_dir_def norm_segments_def
        norm_step_def is_absolute_def Let_def)

lemma register_model_same_file:
  "register_model workstation fleet_manager ''./models/model_v2.tflite'' ''v2'' 1 None 5
     = (Inl SameFileError, fleet_manager)"
  by (simp add: register_model_def path_exists_def dest_path_of_def fleet_manager_eq
        workstation_def local_platform_def normpath_def parent_dir_def norm_segments_def
        norm_step_def is_absolute_def Let_def)

lemma register_model_registry_not_writable:
  "fst (register_model detached_platform (new_manager ''store'' [''/tmp/model.tflite'' \<mapsto> ''weights''])
          ''/tmp/model.tflite'' ''v1'' 1 None 5) = Inl FileNotFoundError \<and>
   map fst (registry (snd (register_model detached_platform
          (new_manager ''store'' [''/tmp/model.tflite'' \<mapsto> ''weights''])
          ''/tmp/model.tflite'' ''v1'' 1 None 5))) = [''v1''] \<and>
   registry_document (snd (register_model detached_platform
          (new_manager ''store'' [''/tmp/model.tflite'' \<mapsto> ''weights''])
          ''/tmp/model.tflite'' ''v1'' 1 None 5)) = None"
  by (simp add: register_model_def path_exists_def dest_path_of_def new_manager_def
        detached_platform_def local_platform_def normpath_def parent_dir_def norm_segments_def
        norm_step_def is_absolute_def Let_def)

text \<open>
  C2.  The claim (at most one production model in every reachable state) against the
  code: registering and deploying a model under the empty version string and then
  registering and deploying \<^verbatim>\<open>v2\<close> leaves two models flagged as production, because
  \<^verbatim>\<open>_set_production\<close> tests the production pointer for truthiness and the empty string
  is falsy.
\<close>

theorem two_production_models:
  "map fst (production_models
     (run_ops workstation (new_manager ''models'' [''/tmp/model.tflite'' \<mapsto> ''weights''])
        empty_version_ops)) = [[], ''v2'']"
  by (simp add: run_ops_def empty_version_ops_def production_models_def new_manager_def
        register_model_def path_exists_def deploy_model_def set_production_def start_rollout_def
        save_registry_def dest_path_of_def get_default_def seconds_of_def workstation_paths Let_def)

text \<open>
  With non-empty version strings the invariant holds in every state reached from a
  new manager, and a deployment leaves no other version flagged.
\<close>

lemma registry_ok_new_manager: "registry_ok (new_manager dir fs)"
  by (simp add: registry_ok_def new_manager_def)

lemma registry_ok_register_model:
  assumes "registry_ok mgr" "ver \<noteq> []"
  shows "registry_ok (snd (register_model os mgr path ver acc meta now))"
  using assms
  by (auto simp add: registry_ok_def register_model_def Let_def save_registry_def update_conv'
        distinct_update simp del: map_of_eq_Some_iff split: option.splits if_splits)

lemma in_keys_map_of: "k \<in> fst ` set al \<longleftrightarrow> map_of al k \<noteq> None"
  by (simp add: map_of_eq_None_iff)

lemma registry_ok_set_production:
  assumes "registry_ok mgr" "ver \<in> fst ` set (registry mgr)"
  shows "registry_ok (set_production mgr ver now)"
proof -
  from assms obtain m where m: "map_of (registry mgr) ver = Some m"
    by (auto simp: in_keys_map_of)
  with assms(1) have vne: "ver \<noteq> []" by (auto simp: registry_ok_def)
  show ?thesis
    using assms(1) m vne
    by (auto simp add: registry_ok_def set_production_def Let_def save_registry_def update_conv'
          distinct_update simp del: map_of_eq_Some_iff split: option.splits if_splits)
qed

lemma registry_start_rollout [simp]:
  "registry (start_rollout mgr dep now) = registry mgr"
  "production_version (start_rollout mgr dep now) = production_version mgr"
  by (simp_all add: start_rollout_def Let_def)

lemma registry_ok_cong:
  "registry mgr' = registry mgr \<Longrightarrow> production_version mgr' = production_version mgr \<Longrightarrow>
   registry_ok mgr' = registry_ok mgr"
  by (simp add: registry_ok_def)

lemma set_production_deployments_irrelevant:
  "registry (set_production (mgr\<lparr>deployments := ds\<rparr>) ver now) = registry (set_production mgr ver now)"
  "production_version (set_production (mgr\<lparr>deployments := ds\<rparr>) ver now)
     = production_version (set_production mgr ver now)"
  by (simp_all add: set_production_def Let_def save_registry_def
        cong: option.case_cong if_cong split: option.splits)

lemma registry_ok_deploy_model:
  assumes "registry_ok mgr"
  shows "registry_ok (snd (deploy_model mgr ver targets now))"
proof (cases "ver \<in> fst ` set (registry mgr)")
  case False
  with assms show ?thesis by (simp add: deploy_model_def)
next
  case True
  have "registry_ok (snd (deploy_model mgr ver targets now)) = registry_ok (set_production mgr ver now)"
    using True
    by (intro registry_ok_cong)
       (simp_all add: deploy_model_def Let_def set_production_deployments_irrelevant)
  with registry_ok_set_production[OF assms True] show ?thesis by simp
qed

lemma registry_ok_rollback:
  assumes "registry_ok mgr"
  shows "registry_ok (snd (rollback mgr to_version now))"
  using assms registry_ok_deploy_model[OF assms]
  by (simp add: rollback_def Let_def split: option.splits list.splits)

lemma registry_report_device_status [simp]:
  "registry (report_device_status mgr dev s cur err now) = registry mgr"
  "production_version (report_device_status mgr dev s cur err now) = production_version mgr"
  by (simp_all add: report_device_status_def check_deployment_completion_def Let_def
        split: option.splits)

lemma registry_ok_apply_op:
  assumes "registry_ok mgr" "registers_named opn"
  shows "registry_ok (apply_op os mgr opn)"
proof (cases opn)
  case (Pair op now)
  with assms show ?thesis
    by (cases op)
       (simp_all add: registry_ok_register_model registry_ok_deploy_model registry_ok_rollback
          registry_ok_cong[of "report_device_status mgr _ _ _ _ _" mgr])
qed

lemma registry_ok_run_ops:
  assumes "registry_ok mgr" "\<forall>opn\<in>set ops. registers_named opn"
  shows "registry_ok (run_ops os mgr ops)"
  using assms unfolding run_ops_def
  by (induction ops arbitrary: mgr) (simp_all add: registry_ok_apply_op)

lemma length_filter_one_key:
  assumes "distinct (map fst al)" "\<forall>kv\<in>set al. P kv \<longrightarrow> fst kv = k"
  shows "length (filter P al) \<le> 1"
  using assms
proof (induction al)
  case Nil
  then show ?case by simp
next
  case (Cons x al)
  show ?case
  proof (cases "P x")
    case True
    with Cons.prems have "\<forall>kv\<in>set al. \<not> P kv" by (fastforce simp: image_iff)
    then have "filter P al = []" by (simp add: filter_empty_conv)
    with True show ?thesis by simp
  next
    case False
    with Cons show ?thesis by simp
  qed
qed

lemma registry_ok_at_most_one:
  assumes "registry_ok mgr"
  shows "length (production_models mgr) \<le> 1"
proof (cases "production_version mgr")
  case None
  with assms have "\<forall>kv\<in>set (registry mgr). \<not> is_production (snd kv)"
    by (auto simp: registry_ok_def)
  then show ?thesis by (simp add: production_models_def filter_empty_conv)
next
  case (Some pv)
  with assms have "\<forall>kv\<in>set (registry mgr). is_production (snd kv) \<longrightarrow> fst kv = pv"
    by (fastforce simp: registry_ok_def)
  with assms show ?thesis
    unfolding production_models_def by (intro length_filter_one_key[where k = pv]) (auto simp: registry_ok_def)
qed

lemma at_most_one_production_named:
  assumes "\<forall>opn\<in>set ops. registers_named opn"
  shows "length (production_models (run_ops os (new_manager dir fs) ops)) \<le> 1"
  by (intro registry_ok_at_most_one registry_ok_run_ops registry_ok_new_manager assms)

lemma production_version_deploy_model:
  assumes "ver \<in> fst ` set (registry mgr)"
  shows "production_version (snd (deploy_model mgr ver targets now)) = Some ver"
  using assms by (simp add: deploy_model_def Let_def set_production_def save_registry_def)

lemma promoted_deploy_model:
  assumes "ver \<in> fst ` set (registry mgr)"
  shows "\<exists>m. map_of (registry (snd (deploy_model mgr ver targets now))) ver = Some m \<and>
             is_production m \<and> deployed_at m = Some now"
proof -
  from assms obtain m where "map_of (registry mgr) ver = Some m"
    by (auto simp: in_keys_map_of)
  then show ?thesis using assms
    by (auto simp: deploy_model_def Let_def set_production_def save_registry_def update_conv'
          split: option.splits)
qed

lemma deploy_model_demotes:
  assumes "registry_ok mgr" "ver \<in> fst ` set (registry mgr)"
    and "map_of (registry (snd (deploy_model mgr ver targets now))) v = Some m" "v \<noteq> ver"
  shows "\<not> is_production m"
  using registry_ok_deploy_model[OF assms(1), of ver targets now]
    production_version_deploy_model[OF assms(2), of targets now] assms(3,4)
  unfolding registry_ok_def by (auto simp del: map_of_eq_Some_iff)

section \<open>Properties of the rollout\<close>

lemma fold_count_device:
  "fold (count_device st) ds (s, f, p) =
     (s + length (filter (\<lambda>d. status_in st d = Some DU_COMPLETED) ds),
      f + length (filter (\<lambda>d. status_in st d = Some DU_FAILED) ds),
      p + length (filter (\<lambda>d. status_in st d \<noteq> None \<and> status_in st d \<noteq> Some DU_COMPLETED
                               \<and> status_in st d \<noteq> Some DU_FAILED) ds))"
  by (induction ds arbitrary: s f p)
     (auto simp: count_device_def status_in_def split: option.splits)






lemma parse_status_simps [simp]:
  "parse_status ''completed'' = DU_COMPLETED" "parse_status ''failed'' = DU_FAILED"
  by (simp_all add: parse_status_def)

lemma dd_status_assign_report [simp]:
  "dd_status (assign_report device s cur err) = parse_status s"
  by (cases cur; cases err) (simp_all add: assign_report_def Let_def)





text \<open>
  Whenever no target device of a ROLLING_OUT job is pending, \<^verbatim>\<open>_check_deployment_completion\<close>
  makes the job COMPLETED, however many devices failed.
\<close>

lemma check_one_completes:
  assumes "dj_status job = ROLLING_OUT"
    and "\<forall>d\<in>set (if target_devices job \<noteq> [] then target_devices job else map fst st).
           status_in st d = None \<or> status_in st d = Some DU_COMPLETED \<or> status_in st d = Some DU_FAILED"
  shows "dj_status (check_one st now job) = DS_COMPLETED"
    and "success_count (check_one st now job) =
           length (filter (\<lambda>d. status_in st d = Some DU_COMPLETED)
             (if target_devices job \<noteq> [] then target_devices job else map fst st))"
    and "failure_count (check_one st now job) =
           length (filter (\<lambda>d. status_in st d = Some DU_FAILED)
             (if target_devices job \<noteq> [] then target_devices job else map fst st))"
proof -
  let ?ds = "if target_devices job \<noteq> [] then target_devices job else map fst st"
  have "filter (\<lambda>d. status_in st d \<noteq> None \<and> status_in st d \<noteq> Some DU_COMPLETED
                               \<and> status_in st d \<noteq> Some DU_FAILED) ?ds = []"
    using assms(2) by (auto simp: filter_empty_conv)
  then have *: "fold (count_device st) ?ds (0, 0, 0) =
     (length (filter (\<lambda>d. status_in st d = Some DU_COMPLETED) ?ds),
      length (filter (\<lambda>d. status_in st d = Some DU_FAILED) ?ds), 0)"
    by (simp add: fold_count_device)
  show "dj_status (check_one st now job) = DS_COMPLETED"
    using assms(1) * by (simp add: check_one_def Let_def)
  show "success_count (check_one st now job) =
           length (filter (\<lambda>d. status_in st d = Some DU_COMPLETED) ?ds)"
    using assms(1) * by (simp add: check_one_def Let_def)
  show "failure_count (check_one st now job) =
           length (filter (\<lambda>d. status_in st d = Some DU_FAILED) ?ds)"
    using assms(1) * by (simp add: check_one_def Let_def)
qed



end
